theory Spec2Isabelle
  imports Complex_Main "HOL-Library.Log_Nat" "HOL-Library.AList"
begin

section \<open>Python values used by app.py\<close>

subsection \<open>Exceptions\<close>

text \<open>
  An exception is a value: its class name and its message. \<open>Inl e\<close> is "raised \<open>e\<close>",
  \<open>Inr v\<close> is "returned \<open>v\<close>". Only subclasses of \<open>Exception\<close> are modelled.
\<close>

datatype py_exception = PyException string string

definition IndexError :: py_exception where
  "IndexError = PyException ''IndexError'' ''list index out of range''"

definition TypeError :: py_exception where
  "TypeError = PyException ''TypeError'' ''expected str, bytes or os.PathLike object''"

fun str_exc :: "py_exception \<Rightarrow> string" where
  "str_exc (PyException cls msg) = msg"

subsection \<open>Strings\<close>

text \<open>
  A Python \<open>str\<close> is a \<open>string\<close>; file names are taken to be ASCII text. A character
  beyond code 127 stands for a code point that has no ASCII decomposition.
\<close>

definition lower_char :: "char \<Rightarrow> char" where
  "lower_char c =
     (let n = (of_char c :: nat) in if 65 \<le> n \<and> n \<le> 90 then char_of (n + 32) else c)"

definition lower :: "string \<Rightarrow> string" where
  "lower s = map lower_char s"

text \<open>\<open>s.rsplit(sep, 1)\<close>: split once, at the last separator.\<close>

definition rsplit1 :: "char \<Rightarrow> string \<Rightarrow> string list" where
  "rsplit1 sep s =
     (if sep \<in> set s
      then [rev (tl (dropWhile (\<lambda>c. c \<noteq> sep) (rev s))), rev (takeWhile (\<lambda>c. c \<noteq> sep) (rev s))]
      else [s])"

text \<open>\<open>xs[1]\<close>, which raises IndexError on a list shorter than two.\<close>

definition item1 :: "'a list \<Rightarrow> py_exception + 'a" where
  "item1 xs = (case xs of _ # y # _ \<Rightarrow> Inr y | _ \<Rightarrow> Inl IndexError)"

text \<open>\<open>str.split()\<close> with no argument: the maximal runs of non-whitespace.\<close>

definition is_space :: "char \<Rightarrow> bool" where
  "is_space c = (let n = (of_char c :: nat) in (9 \<le> n \<and> n \<le> 13) \<or> (28 \<le> n \<and> n \<le> 32))"

fun split_acc :: "string \<Rightarrow> string \<Rightarrow> string list" where
  "split_acc cur [] = (if cur = [] then [] else [rev cur])"
| "split_acc cur (c # cs) =
     (if is_space c then (if cur = [] then split_acc [] cs else rev cur # split_acc [] cs)
      else split_acc (c # cur) cs)"

definition split_ws :: "string \<Rightarrow> string list" where
  "split_ws s = split_acc [] s"

fun join :: "string \<Rightarrow> string list \<Rightarrow> string" where
  "join sep [] = []"
| "join sep [w] = w"
| "join sep (w # ws) = w @ sep @ join sep ws"

text \<open>\<open>s.strip(chars)\<close>.\<close>

definition strip :: "char set \<Rightarrow> string \<Rightarrow> string" where
  "strip chars s =
     rev (dropWhile (\<lambda>c. c \<in> chars) (rev (dropWhile (\<lambda>c. c \<in> chars) s)))"

subsection \<open>Paths and URLs\<close>

text \<open>\<open>os.path.join\<close> of two components and \<open>os.path.basename\<close>, on POSIX.\<close>

definition path_join :: "string \<Rightarrow> string \<Rightarrow> string" where
  "path_join a b =
     (if b \<noteq> [] \<and> hd b = CHR ''/'' then b
      else if a = [] \<or> last a = CHR ''/'' then a @ b
      else a @ ''/'' @ b)"

definition basename :: "string \<Rightarrow> string" where
  "basename p = rev (takeWhile (\<lambda>c. c \<noteq> CHR ''/'') (rev p))"

text \<open>
  \<open>url_for('static', filename=f)\<close>: the static route followed by the file name. The
  percent-encoding of characters that are not URL-safe is left out.
\<close>

definition url_for_static :: "string \<Rightarrow> string" where
  "url_for_static f = ''/static/'' @ f"

subsection \<open>werkzeug.utils.secure_filename\<close>

text \<open>
  On POSIX (\<open>os.sep = '/'\<close>, no \<open>os.path.altsep\<close>, \<open>os.name \<noteq> 'nt'\<close>):
  \<^verbatim>\<open>
  filename = unicodedata.normalize("NFKD", filename)
  filename = filename.encode("ascii", "ignore").decode("ascii")
  filename = filename.replace("/", " ")
  filename = str(_filename_ascii_strip_re.sub("", "_".join(filename.split()))).strip("._")
  \<close>
  with \<open>_filename_ascii_strip_re = re.compile(r"[^A-Za-z0-9_.-]")\<close>. On ASCII text
  the first two lines change nothing. The decomposition of a character beyond ASCII
  into ASCII letters, as of an accented letter into its base letter, is not modelled:
  such a character is dropped here.
\<close>

definition ascii_ignore :: "string \<Rightarrow> string" where
  "ascii_ignore s = filter (\<lambda>c. (of_char c :: nat) < 128) s"

definition replace_sep :: "string \<Rightarrow> string" where
  "replace_sep s = map (\<lambda>c. if c = CHR ''/'' then CHR '' '' else c) s"

definition filename_char :: "char \<Rightarrow> bool" where
  "filename_char c =
     (let n = (of_char c :: nat)
      in (65 \<le> n \<and> n \<le> 90) \<or> (97 \<le> n \<and> n \<le> 122) \<or> (48 \<le> n \<and> n \<le> 57)
         \<or> c = CHR ''_'' \<or> c = CHR ''.'' \<or> c = CHR ''-'')"

definition secure_filename :: "string \<Rightarrow> string" where
  "secure_filename fname =
     strip {CHR ''.'', CHR ''_''}
       (filter filename_char (join ''_'' (split_ws (replace_sep (ascii_ignore fname)))))"

subsection \<open>Floats\<close>

text \<open>
  A finite Python float (IEEE 754 binary64) is modelled by its exact value, a rational.
  Every arithmetic operation computes the exact result and rounds it to the nearest
  binary64 value, ties to even: 53 significant bits, least exponent \<open>-1074\<close>. Results
  beyond the largest finite float, NaN and the sign of zero are not modelled; the values
  computed below stay between 0 and 100.
\<close>

type_synonym pyfloat = rat

definition pow2 :: "int \<Rightarrow> rat" where
  "pow2 e = (if 0 \<le> e then 2 ^ nat e else 1 / 2 ^ nat (- e))"

definition round_half_even :: "rat \<Rightarrow> int" where
  "round_half_even x =
     (let f = \<lfloor>x\<rfloor>; r = x - of_int f
      in if r < 1 / 2 then f else if 1 / 2 < r then f + 1
         else if even f then f else f + 1)"

text \<open>\<open>ilog2 x\<close> is the integer \<open>k\<close> with \<open>2^k \<le> |x| < 2^(k+1)\<close>, for \<open>x \<noteq> 0\<close>.\<close>

definition ilog2 :: "rat \<Rightarrow> int" where
  "ilog2 x = (if 1 \<le> \<bar>x\<bar> then bitlen \<lfloor>\<bar>x\<bar>\<rfloor> - 1
              else - bitlen (\<lceil>1 / \<bar>x\<bar>\<rceil> - 1))"

definition round_binary64 :: "rat \<Rightarrow> pyfloat" where
  "round_binary64 x =
     (if x = 0 then 0
      else let e = max (ilog2 x - 52) (- 1074)
           in of_int (round_half_even (x / pow2 e)) * pow2 e)"

definition fsub :: "pyfloat \<Rightarrow> pyfloat \<Rightarrow> pyfloat" where
  "fsub a b = round_binary64 (a - b)"

definition fmul :: "pyfloat \<Rightarrow> pyfloat \<Rightarrow> pyfloat" where
  "fmul a b = round_binary64 (a * b)"

text \<open>
  \<open>f"{x:.2f}"\<close>: the exact value rounded to two decimals, ties to even, with the sign
  of \<open>x\<close>.
\<close>

definition digit_char :: "nat \<Rightarrow> char" where
  "digit_char n = char_of (48 + n)"

function decimal :: "nat \<Rightarrow> string" where
  "decimal n = (if n < 10 then [digit_char n] else decimal (n div 10) @ [digit_char (n mod 10)])"
  by pat_completeness auto
termination
  by (relation "measure id") auto

declare decimal.simps [simp del]

definition format_2f :: "pyfloat \<Rightarrow> string" where
  "format_2f x =
     (let h = nat (round_half_even (\<bar>x\<bar> * 100))
      in (if x < 0 then ''-'' else []) @ decimal (h div 100) @ ''.''
         @ [digit_char (h mod 100 div 10), digit_char (h mod 10)])"

subsection \<open>Dictionaries and JSON values\<close>

text \<open>
  A \<open>dict\<close> with string keys keeps its insertion order: an association list.
  \<open>d[k] = v\<close> is \<open>AList.update k v d\<close>, \<open>d.get(k)\<close> is \<open>map_of d k\<close>.
\<close>

datatype pyval =
    PyNone
  | PyStr string
  | PyInt int
  | PyFloat pyfloat
  | PyList "pyval list"
  | PyDict "(string \<times> pyval) list"

type_synonym pydict = "(string \<times> pyval) list"

fun truthy :: "pyval \<Rightarrow> bool" where
  "truthy PyNone = False"
| "truthy (PyStr s) = (s \<noteq> [])"
| "truthy (PyInt i) = (i \<noteq> 0)"
| "truthy (PyFloat x) = (x \<noteq> 0)"
| "truthy (PyList xs) = (xs \<noteq> [])"
| "truthy (PyDict d) = (d \<noteq> [])"

section \<open>The detector's interface\<close>

text \<open>
  Modelled from the spec: the result type of \<open>predict_image_deepfake\<close>. The class
  \<open>HybridDeepFakeDetector\<close> (module \<open>model\<close>) is not among the sources; its contract
  gives \<open>probability: 0..1\<close>, "a single scalar in [0,1]". A probability is a float
  between 0 and 1.
\<close>

typedef probability = "{q :: rat. 0 \<le> q \<and> q \<le> 1 \<and> round_binary64 q = q}"
  by (rule exI [of _ 0]) (simp add: round_binary64_def)

text \<open>
  The files on disk: a map from paths to contents. The three methods of the detector
  are parameters. Each takes the input path, the output directory and the disk, and
  returns or raises, with the disk as it has left it.
\<close>

type_synonym disk = "string \<rightharpoonup> string"

type_synonym 'r engine_call = "string \<Rightarrow> string \<Rightarrow> disk \<Rightarrow> (py_exception + 'r) \<times> disk"

record detector =
  analyze_pdf_forgery :: "pydict list engine_call"
  predict_image_deepfake :: "(probability \<times> string option) engine_call"
  analyze_document_forgery :: "(pyfloat \<times> string \<times> string option) engine_call"

section \<open>app.py\<close>

subsection \<open>Configuration\<close>

definition UPLOAD_FOLDER :: string where
  "UPLOAD_FOLDER = ''static/uploads''"

definition PROCESSED_FOLDER :: string where
  "PROCESSED_FOLDER = ''static/processed''"

definition ALLOWED_EXTENSIONS :: "string set" where
  "ALLOWED_EXTENSIONS = {''png'', ''jpg'', ''jpeg'', ''pdf''}"

definition allowed_file :: "string \<Rightarrow> bool" where
  "allowed_file fname =
     (CHR ''.'' \<in> set fname \<and>
      (case item1 (rsplit1 CHR ''.'' fname) of
         Inr ext \<Rightarrow> lower ext \<in> ALLOWED_EXTENSIONS
       | Inl e \<Rightarrow> False))"

subsection \<open>Requests, responses and the state of the process\<close>

text \<open>
  \<open>request.files.get('file')\<close> is an uploaded file (its name and its bytes) or absent;
  \<open>request.form.get('analysis_type')\<close> is a string or \<open>None\<close>.
\<close>

record file_storage =
  filename :: string
  stream :: string

record request =
  files_file :: "file_storage option"
  form_analysis_type :: "string option"

text \<open>A response is the dictionary given to \<open>jsonify\<close> and the status code.\<close>

type_synonym response = "pydict \<times> nat"

text \<open>
  The state holds the module-level \<open>detector\<close>, the disk, and two logs kept for the
  statements below: every call of a detector method (the method, its two arguments and
  whether it returned or raised) and every line printed.
\<close>

datatype engine_op = AnalyzePdfForgery | PredictImageDeepfake | AnalyzeDocumentForgery

datatype outcome = Returned | Raised py_exception

type_synonym call_record = "engine_op \<times> string \<times> string \<times> outcome"

record app =
  detector :: detector
  filesystem :: disk
  engine_calls :: "call_record list"
  console :: "string list"

definition outcome_of :: "py_exception + 'r \<Rightarrow> outcome" where
  "outcome_of r = (case r of Inl e \<Rightarrow> Raised e | Inr v \<Rightarrow> Returned)"

definition call_engine ::
  "engine_op \<Rightarrow> 'r engine_call \<Rightarrow> string \<Rightarrow> string \<Rightarrow> app \<Rightarrow> (py_exception + 'r) \<times> app"
where
  "call_engine op method path out s =
     (let (r, d) = method path out (filesystem s)
      in (r, s\<lparr>filesystem := d, engine_calls := engine_calls s @ [(op, path, out, outcome_of r)]\<rparr>))"

text \<open>
  Module level, lines 16 to 22: the folders are created and the detector is
  constructed. The constructed object is the parameter \<open>d\<close>.
\<close>

definition startup :: "detector \<Rightarrow> disk \<Rightarrow> app" where
  "startup d dsk = \<lparr>detector = d, filesystem = dsk, engine_calls = [], console = []\<rparr>"

subsection \<open>The handler of /analyze\<close>

definition error_json :: "string \<Rightarrow> pydict" where
  "error_json msg = [(''error'', PyStr msg)]"

definition internal_error :: response where
  "internal_error =
     (error_json ''An internal error occurred during processing. Please try again.'', 500)"

text \<open>
  Lines 63 to 67: each result dictionary gets the URL of each image it names.
  \<open>os.path.basename\<close> raises TypeError on a value that is not a string.
\<close>

definition add_url :: "string \<Rightarrow> string \<Rightarrow> pydict \<Rightarrow> py_exception + pydict" where
  "add_url path_key url_key result =
     (case map_of result path_key of
        None \<Rightarrow> Inr result
      | Some v \<Rightarrow>
          if truthy v
          then (case v of
                  PyStr p \<Rightarrow>
                    Inr (AList.update url_key
                           (PyStr (url_for_static (''processed/'' @ basename p))) result)
                | _ \<Rightarrow> Inl TypeError)
          else Inr result)"

definition add_urls :: "pydict \<Rightarrow> py_exception + pydict" where
  "add_urls result =
     (case add_url ''original_page_image_path'' ''original_image_url'' result of
        Inl e \<Rightarrow> Inl e
      | Inr result' \<Rightarrow> add_url ''analyzed_image_path'' ''analyzed_image_url'' result')"

fun add_urls_all :: "pydict list \<Rightarrow> py_exception + pydict list" where
  "add_urls_all [] = Inr []"
| "add_urls_all (result # rest) =
     (case add_urls result of
        Inl e \<Rightarrow> Inl e
      | Inr result' \<Rightarrow>
          (case add_urls_all rest of Inl e \<Rightarrow> Inl e | Inr rest' \<Rightarrow> Inr (result' # rest')))"

text \<open>\<open>url_for(...) if path else None\<close>, lines 91 and 105.\<close>

definition processed_url :: "string option \<Rightarrow> pyval" where
  "processed_url path =
     (case path of
        None \<Rightarrow> PyNone
      | Some p \<Rightarrow> if p = [] then PyNone
                  else PyStr (url_for_static (''processed/'' @ basename p)))"

text \<open>Lines 79 to 82.\<close>

definition real_score :: "probability \<Rightarrow> pyfloat" where
  "real_score probability = fmul (fsub 1 (Rep_probability probability)) 100"

definition fake_score :: "probability \<Rightarrow> pyfloat" where
  "fake_score probability = fmul (Rep_probability probability) 100"

definition image_verdict :: "probability \<Rightarrow> string" where
  "image_verdict probability =
     (if Rep_probability probability > 1 / 2 then ''DeepFake Detected''
      else ''Likely Authentic'')"

definition image_explanation :: "probability \<Rightarrow> string" where
  "image_explanation probability =
     (if Rep_probability probability > 1 / 2
      then ''The model detected subtle artifacts consistent with AI-generated images.''
      else ''The model did not find significant evidence of AI manipulation.'')"

definition document_explanation :: "string \<Rightarrow> string" where
  "document_explanation verdict =
     (if verdict = ''Suspicious Forgery''
      then ''ELA detected inconsistencies in JPEG compression levels, suggesting a potential digital modification.''
      else ''The document'' @ [CHR 0x27] @ ''s compression levels appear consistent, indicating it is likely unmodified.'')"

text \<open>
  The body of the \<open>try\<close> statement, lines 55 to 109, branch by branch. A value
  \<open>Inl e\<close> is an exception on its way to the \<open>except\<close> clause.
\<close>

text \<open>PDF Analysis Logic, lines 57 to 73.\<close>

definition pdf_analysis ::
  "string \<Rightarrow> string \<Rightarrow> string \<Rightarrow> app \<Rightarrow> (py_exception + response) \<times> app"
where
  "pdf_analysis analysis_type fname upload_path s =
     (if analysis_type = ''image'' then
        (Inr (error_json ''DeepFake analysis is for images (JPG, PNG), not PDFs.'', 400), s)
      else
        (case call_engine AnalyzePdfForgery (analyze_pdf_forgery (detector s))
                upload_path PROCESSED_FOLDER s of
           (Inl e, s') \<Rightarrow> (Inl e, s')
         | (Inr pdf_results, s') \<Rightarrow>
             (case add_urls_all pdf_results of
                Inl e \<Rightarrow> (Inl e, s')
              | Inr results \<Rightarrow>
                  (Inr ([(''analysis_type'', PyStr ''pdf''),
                         (''results'', PyList (map PyDict results)),
                         (''original_filename'', PyStr fname)], 200), s'))))"

text \<open>Image Analysis Logic, lines 77 to 92.\<close>

definition image_analysis ::
  "string \<Rightarrow> string \<Rightarrow> app \<Rightarrow> (py_exception + response) \<times> app"
where
  "image_analysis fname upload_path s =
     (case call_engine PredictImageDeepfake (predict_image_deepfake (detector s))
             upload_path PROCESSED_FOLDER s of
        (Inl e, s') \<Rightarrow> (Inl e, s')
      | (Inr (probability, highlighted_path), s') \<Rightarrow>
          (Inr ([(''verdict'', PyStr (image_verdict probability)),
                 (''real_score'', PyStr (format_2f (real_score probability))),
                 (''fake_score'', PyStr (format_2f (fake_score probability))),
                 (''explanation'', PyStr (image_explanation probability)),
                 (''analysis_type'', PyStr ''image''),
                 (''original_image_url'', PyStr (url_for_static (''uploads/'' @ fname))),
                 (''analyzed_image_url'', processed_url highlighted_path)], 200), s'))"

text \<open>Lines 95 to 106.\<close>

definition document_analysis ::
  "string \<Rightarrow> string \<Rightarrow> app \<Rightarrow> (py_exception + response) \<times> app"
where
  "document_analysis fname upload_path s =
     (case call_engine AnalyzeDocumentForgery (analyze_document_forgery (detector s))
             upload_path PROCESSED_FOLDER s of
        (Inl e, s') \<Rightarrow> (Inl e, s')
      | (Inr (forgery_score, verdict, analyzed_path), s') \<Rightarrow>
          (Inr ([(''verdict'', PyStr verdict),
                 (''forgery_score'', PyStr (format_2f forgery_score)),
                 (''explanation'', PyStr (document_explanation verdict)),
                 (''analysis_type'', PyStr ''document''),
                 (''original_image_url'', PyStr (url_for_static (''uploads/'' @ fname))),
                 (''analyzed_image_url'', processed_url analyzed_path)], 200), s'))"

definition try_body ::
  "string \<Rightarrow> string \<Rightarrow> string \<Rightarrow> string \<Rightarrow> app \<Rightarrow> (py_exception + response) \<times> app"
where
  "try_body file_extension analysis_type fname upload_path s =
     (if file_extension = ''pdf'' then pdf_analysis analysis_type fname upload_path s
      else if analysis_type = ''image'' then image_analysis fname upload_path s
      else if analysis_type = ''document'' then document_analysis fname upload_path s
      else (Inr (error_json ''Invalid analysis type specified.'', 400), s))"

text \<open>The \<open>except Exception\<close> clause, lines 111 to 113.\<close>

definition except_Exception :: "(py_exception + response) \<times> app \<Rightarrow> response \<times> app" where
  "except_Exception r =
     (case r of
        (Inr resp, s) \<Rightarrow> (resp, s)
      | (Inl e, s) \<Rightarrow>
          (internal_error,
           s\<lparr>console := console s @ [''An error occurred during analysis: '' @ str_exc e]\<rparr>))"

text \<open>\<open>file.save(upload_path)\<close>, line 50.\<close>

definition save :: "file_storage \<Rightarrow> string \<Rightarrow> app \<Rightarrow> app" where
  "save file path s = s\<lparr>filesystem := (filesystem s)(path \<mapsto> stream file)\<rparr>"

text \<open>
  The handler, lines 33 to 115. \<open>Inl e\<close> is an exception that leaves the handler: line 52
  is outside the \<open>try\<close> statement.
\<close>

definition analyze :: "app \<Rightarrow> request \<Rightarrow> (py_exception + response) \<times> app" where
  "analyze s req =
     (case files_file req of
        None \<Rightarrow> (Inr (error_json ''No file part in the request.'', 400), s)
      | Some file \<Rightarrow>
          if filename file = [] then (Inr (error_json ''No file selected.'', 400), s)
          else
            (case form_analysis_type req of
               None \<Rightarrow> (Inr (error_json ''No analysis type selected.'', 400), s)
             | Some analysis_type \<Rightarrow>
                 if analysis_type = []
                 then (Inr (error_json ''No analysis type selected.'', 400), s)
                 else if filename file \<noteq> [] \<and> allowed_file (filename file) then
                   (let fname = secure_filename (filename file);
                        upload_path = path_join UPLOAD_FOLDER fname;
                        s1 = save file upload_path s
                    in case item1 (rsplit1 CHR ''.'' fname) of
                         Inl e \<Rightarrow> (Inl e, s1)
                       | Inr ext \<Rightarrow>
                           (case except_Exception
                                   (try_body (lower ext) analysis_type fname upload_path s1) of
                              (resp, s2) \<Rightarrow> (Inr resp, s2)))
                 else (Inr (error_json ''Invalid file type.'', 400), s)))"


section \<open>The detection engine, from the specification\<close>

text \<open>
  The module \<open>model\<close> with the class \<open>HybridDeepFakeDetector\<close> is not among the
  sources. The definitions of this section follow the specification of its three
  operations. What the specification leaves to libraries is a parameter: the image
  codec, the classifier with its weights, the PDF reader and the permission to write.
\<close>

text \<open>
  Modelled from the spec: the data the engine works on, section 2. An image is the
  list of its samples, each from 0 to 255. The record holds what the engine takes from
  libraries: decoding, recompressing at a quality and encoding an image, the forward
  pass of the classifier, the saliency map, the pages of a PDF, the rasterizer at a
  resolution, and whether a path can be written.
\<close>

type_synonym image = "nat list"

record engine =
  decode_image :: "string \<Rightarrow> image option"
  recompress :: "nat \<Rightarrow> image \<Rightarrow> image"
  encode_image :: "image \<Rightarrow> string"
  forward :: "image \<Rightarrow> probability option"
  saliency :: "image \<Rightarrow> image"
  pdf_pages :: "string \<Rightarrow> string list option"
  rasterize :: "nat \<Rightarrow> string \<Rightarrow> string option"
  writable :: "string \<Rightarrow> bool"

text \<open>
  Modelled from the spec: the named constants of sections 4.2 and 4.3, which are the
  recompression quality, the amplification, the forgery threshold \<open>T\<close> and the
  resolution of the rasterizer.
\<close>

record config =
  quality :: nat
  scale :: nat
  threshold :: pyfloat
  dpi :: nat

text \<open>Modelled from the spec: the failures of section 7.\<close>

definition InvalidImage :: py_exception where
  "InvalidImage = PyException ''InvalidImage'' ''cannot decode the input''"

definition ModelInferenceError :: py_exception where
  "ModelInferenceError = PyException ''ModelInferenceError'' ''the forward pass failed''"

definition IOError :: py_exception where
  "IOError = PyException ''IOError'' ''cannot write the artifact''"

definition EveryPageFailed :: py_exception where
  "EveryPageFailed = PyException ''InvalidImage'' ''every page failed''"

text \<open>
  Modelled from the spec: artifact naming, section 4.4. The name of an artifact is the
  name of the input followed by a role suffix, in the output directory.
\<close>

definition artifact_path :: "string \<Rightarrow> string \<Rightarrow> string \<Rightarrow> string" where
  "artifact_path outDir inputPath role = path_join outDir (basename inputPath @ role)"

text \<open>
  Modelled from the spec: \<open>predictImageDeepfake\<close>, section 4.1. The image is decoded,
  an image without samples is invalid, the forward pass gives the probability, and the
  highlight artifact is always written.
\<close>

definition predictImageDeepfake ::
  "engine \<Rightarrow> (probability \<times> string option) engine_call"
where
  "predictImageDeepfake eng imagePath outDir dsk =
     (case dsk imagePath of
        None \<Rightarrow> (Inl InvalidImage, dsk)
      | Some bytes \<Rightarrow>
          (case decode_image eng bytes of
             None \<Rightarrow> (Inl InvalidImage, dsk)
           | Some img \<Rightarrow>
               if img = [] then (Inl InvalidImage, dsk)
               else
                 (case forward eng img of
                    None \<Rightarrow> (Inl ModelInferenceError, dsk)
                  | Some probability \<Rightarrow>
                      (let highlightPath = artifact_path outDir imagePath ''_highlight.png''
                       in if writable eng highlightPath
                          then (Inr (probability, Some highlightPath),
                                dsk(highlightPath \<mapsto> encode_image eng (saliency eng img)))
                          else (Inl IOError, dsk)))))"

text \<open>
  Modelled from the spec: the ELA algorithm, section 4.2. The error map is the
  difference of the image and its recompression, sample by sample, amplified and kept
  in the range of a sample. The score is the mean amplified error, scaled to 0..100.
\<close>

definition error_map :: "nat \<Rightarrow> image \<Rightarrow> image \<Rightarrow> image" where
  "error_map k original recompressed =
     map (\<lambda>(a, b). min 255 (k * (if a \<le> b then b - a else a - b))) (zip original recompressed)"

definition ela_score :: "image \<Rightarrow> pyfloat" where
  "ela_score errors =
     round_binary64 (of_nat (sum_list errors) * 100 / (255 * of_nat (length errors)))"

definition ela_verdict :: "config \<Rightarrow> pyfloat \<Rightarrow> string" where
  "ela_verdict cfg score =
     (if score > threshold cfg then ''Suspicious Forgery'' else ''Likely Authentic'')"

text \<open>Modelled from the spec: \<open>analyzeDocumentForgery\<close>, section 4.2.\<close>

definition analyzeDocumentForgery ::
  "config \<Rightarrow> engine \<Rightarrow> (pyfloat \<times> string \<times> string option) engine_call"
where
  "analyzeDocumentForgery cfg eng imagePath outDir dsk =
     (case dsk imagePath of
        None \<Rightarrow> (Inl InvalidImage, dsk)
      | Some bytes \<Rightarrow>
          (case decode_image eng bytes of
             None \<Rightarrow> (Inl InvalidImage, dsk)
           | Some img \<Rightarrow>
               (let errors = error_map (scale cfg) img (recompress eng (quality cfg) img);
                    analyzedPath = artifact_path outDir imagePath ''_ela.png''
                in if errors = [] then (Inl InvalidImage, dsk)
                   else if writable eng analyzedPath
                   then (Inr (ela_score errors, ela_verdict cfg (ela_score errors),
                              Some analyzedPath),
                         dsk(analyzedPath \<mapsto> encode_image eng errors))
                   else (Inl IOError, dsk))))"

text \<open>
  Modelled from the spec: \<open>analyzePdfForgery\<close>, section 4.3. Each page is rasterized,
  saved as the page's original artifact and given to the ELA engine. A page that
  fails is recorded with the verdict \<open>Analysis Failed\<close>, and the next page follows.
  The document fails only when it has pages and every page has failed.
\<close>

definition page_result ::
  "nat \<Rightarrow> pyval \<Rightarrow> string \<Rightarrow> string option \<Rightarrow> string option \<Rightarrow> pydict"
where
  "page_result i score verdict original analyzed =
     [(''page_number'', PyInt (int i)),
      (''forgery_score'', score),
      (''verdict'', PyStr verdict),
      (''original_page_image_path'', case original of None \<Rightarrow> PyNone | Some p \<Rightarrow> PyStr p),
      (''analyzed_image_path'', case analyzed of None \<Rightarrow> PyNone | Some p \<Rightarrow> PyStr p)]"

definition failed_page :: "nat \<Rightarrow> string option \<Rightarrow> pydict" where
  "failed_page i original = page_result i PyNone ''Analysis Failed'' original None"

definition page_failed :: "pydict \<Rightarrow> bool" where
  "page_failed r = (map_of r ''verdict'' = Some (PyStr ''Analysis Failed''))"

definition analyze_page ::
  "config \<Rightarrow> engine \<Rightarrow> string \<Rightarrow> string \<Rightarrow> nat \<Rightarrow> string \<Rightarrow> disk \<Rightarrow> pydict \<times> disk"
where
  "analyze_page cfg eng pdfPath outDir i page dsk =
     (case rasterize eng (dpi cfg) page of
        None \<Rightarrow> (failed_page i None, dsk)
      | Some png \<Rightarrow>
          (let original = artifact_path outDir pdfPath (''_page_'' @ decimal i @ ''.png'')
           in if writable eng original
              then (case analyzeDocumentForgery cfg eng original outDir (dsk(original \<mapsto> png)) of
                      (Inl e, dsk') \<Rightarrow> (failed_page i (Some original), dsk')
                    | (Inr (score, verdict, analyzed), dsk') \<Rightarrow>
                        (page_result i (PyFloat score) verdict (Some original) analyzed, dsk'))
              else (failed_page i None, dsk)))"

fun analyze_pages ::
  "config \<Rightarrow> engine \<Rightarrow> string \<Rightarrow> string \<Rightarrow> nat \<Rightarrow> string list \<Rightarrow> disk \<Rightarrow> pydict list \<times> disk"
where
  "analyze_pages cfg eng pdfPath outDir i [] dsk = ([], dsk)"
| "analyze_pages cfg eng pdfPath outDir i (page # pages) dsk =
     (case analyze_page cfg eng pdfPath outDir i page dsk of
        (r, dsk') \<Rightarrow>
          (case analyze_pages cfg eng pdfPath outDir (Suc i) pages dsk' of
             (rs, dsk'') \<Rightarrow> (r # rs, dsk'')))"

definition analyzePdfForgery :: "config \<Rightarrow> engine \<Rightarrow> pydict list engine_call" where
  "analyzePdfForgery cfg eng pdfPath outDir dsk =
     (case dsk pdfPath of
        None \<Rightarrow> (Inl InvalidImage, dsk)
      | Some bytes \<Rightarrow>
          (case pdf_pages eng bytes of
             None \<Rightarrow> (Inl InvalidImage, dsk)
           | Some pages \<Rightarrow>
               (case analyze_pages cfg eng pdfPath outDir 1 pages dsk of
                  (results, dsk') \<Rightarrow>
                    if results \<noteq> [] \<and> list_all page_failed results
                    then (Inl EveryPageFailed, dsk')
                    else (Inr results, dsk'))))"

text \<open>
  Modelled from the spec: the detector object, whose three methods are the three
  operations.
\<close>

definition spec_detector :: "config \<Rightarrow> engine \<Rightarrow> detector" where
  "spec_detector cfg eng =
     \<lparr>analyze_pdf_forgery = analyzePdfForgery cfg eng,
      predict_image_deepfake = predictImageDeepfake eng,
      analyze_document_forgery = analyzeDocumentForgery cfg eng\<rparr>"

section \<open>Examples\<close>

text \<open>
  A detector for the examples: its PDF analysis returns one page, its image analysis
  the probability one half, and its document analysis raises.
\<close>

definition half :: probability where
  "half = Abs_probability (1 / 2)"

text \<open>The float \<open>0.021\<close>, which is \<open>0x1.5810624dd2f1bp-6\<close>.\<close>

definition float_0_021 :: probability where
  "float_0_021 = Abs_probability (6052837899185947 / 2 ^ 58)"

definition example_detector :: detector where
  "example_detector =
     \<lparr>analyze_pdf_forgery = (\<lambda>path out dsk.
        (Inr [[(''page_number'', PyInt 1),
               (''original_page_image_path'', PyStr ''static/processed/page_1.png'')]], dsk)),
      predict_image_deepfake = (\<lambda>path out dsk. (Inr (half, None), dsk)),
      analyze_document_forgery = (\<lambda>path out dsk.
        (Inl (PyException ''OSError'' ''cannot identify image file''), dsk))\<rparr>"

text \<open>
  An engine for the examples: every byte of a file is a sample, recompression clears
  the three low bits of a sample, every byte of a PDF is a page, and every path is
  writable.
\<close>

definition example_engine :: engine where
  "example_engine =
     \<lparr>decode_image = (\<lambda>bytes. Some (map of_char bytes)),
      recompress = (\<lambda>q img. map (\<lambda>v. v - v mod 8) img),
      encode_image = map char_of,
      forward = (\<lambda>img. Some half),
      saliency = (\<lambda>img. img),
      pdf_pages = (\<lambda>bytes. Some (map (\<lambda>c. [c]) bytes)),
      rasterize = (\<lambda>d page. Some page),
      writable = (\<lambda>path. True)\<rparr>"

definition example_config :: config where
  "example_config = \<lparr>quality = 90, scale = 15, threshold = 25, dpi = 150\<rparr>"

text \<open>A disk with one uploaded image of three samples, and one with a PDF of two pages.\<close>

definition scan_disk :: disk where
  "scan_disk = [''static/uploads/scan.png'' \<mapsto> ''hey'']"

definition pdf_disk :: disk where
  "pdf_disk = [''static/uploads/doc.pdf'' \<mapsto> ''ab'']"

definition upload :: "string \<Rightarrow> string \<Rightarrow> request" where
  "upload name analysis_type =
     \<lparr>files_file = Some \<lparr>filename = name, stream = ''data''\<rparr>,
      form_analysis_type = Some analysis_type\<rparr>"

section \<open>Properties of the handler\<close>

lemma call_engine_detector [simp]:
  "detector (snd (call_engine op m p out s)) = detector s"
  by (simp add: call_engine_def split: prod.splits)

lemma call_engine_calls [simp]:
  "engine_calls (snd (call_engine op m p out s))
     = engine_calls s @ [(op, p, out, outcome_of (fst (call_engine op m p out s)))]"
  by (simp add: call_engine_def split: prod.splits)

lemma pdf_analysis_detector [simp]:
  "detector (snd (pdf_analysis ty fn up s)) = detector s"
  unfolding pdf_analysis_def
  by (simp add: case_prod_beta split: sum.splits)

lemma image_analysis_detector [simp]:
  "detector (snd (image_analysis fn up s)) = detector s"
  unfolding image_analysis_def
  by (simp add: case_prod_beta split: sum.splits)

lemma document_analysis_detector [simp]:
  "detector (snd (document_analysis fn up s)) = detector s"
  unfolding document_analysis_def
  by (simp add: case_prod_beta split: sum.splits)

lemma try_body_detector [simp]:
  "detector (snd (try_body ext ty fn up s)) = detector s"
  unfolding try_body_def by simp

lemma except_Exception_detector [simp]:
  "detector (snd (except_Exception r)) = detector (snd r)"
  by (cases r) (auto simp: except_Exception_def split: sum.splits)

lemma except_Exception_calls [simp]:
  "engine_calls (snd (except_Exception r)) = engine_calls (snd r)"
  by (cases r) (auto simp: except_Exception_def split: sum.splits)

text \<open>The paths through the handler.\<close>

lemma analyze_no_file:
  "files_file req = None \<Longrightarrow>
   analyze s req = (Inr (error_json ''No file part in the request.'', 400), s)"
  by (simp add: analyze_def)

lemma analyze_no_name:
  "files_file req = Some f \<Longrightarrow> filename f = [] \<Longrightarrow>
   analyze s req = (Inr (error_json ''No file selected.'', 400), s)"
  by (simp add: analyze_def)

lemma analyze_no_type:
  "files_file req = Some f \<Longrightarrow> filename f \<noteq> [] \<Longrightarrow>
   form_analysis_type req = None \<or> form_analysis_type req = Some [] \<Longrightarrow>
   analyze s req = (Inr (error_json ''No analysis type selected.'', 400), s)"
  by (auto simp: analyze_def)

lemma analyze_bad_type:
  "files_file req = Some f \<Longrightarrow> filename f \<noteq> [] \<Longrightarrow>
   form_analysis_type req = Some ty \<Longrightarrow> ty \<noteq> [] \<Longrightarrow> \<not> allowed_file (filename f) \<Longrightarrow>
   analyze s req = (Inr (error_json ''Invalid file type.'', 400), s)"
  by (simp add: analyze_def)

lemma analyze_no_extension:
  "files_file req = Some f \<Longrightarrow> filename f \<noteq> [] \<Longrightarrow>
   form_analysis_type req = Some ty \<Longrightarrow> ty \<noteq> [] \<Longrightarrow> allowed_file (filename f) \<Longrightarrow>
   item1 (rsplit1 CHR ''.'' (secure_filename (filename f))) = Inl e \<Longrightarrow>
   analyze s req =
     (Inl e, save f (path_join UPLOAD_FOLDER (secure_filename (filename f))) s)"
  by (simp add: analyze_def)

lemma analyze_dispatch:
  "files_file req = Some f \<Longrightarrow> filename f \<noteq> [] \<Longrightarrow>
   form_analysis_type req = Some ty \<Longrightarrow> ty \<noteq> [] \<Longrightarrow> allowed_file (filename f) \<Longrightarrow>
   item1 (rsplit1 CHR ''.'' (secure_filename (filename f))) = Inr ext \<Longrightarrow>
   analyze s req =
     (let r = except_Exception
                (try_body (lower ext) ty (secure_filename (filename f))
                   (path_join UPLOAD_FOLDER (secure_filename (filename f)))
                   (save f (path_join UPLOAD_FOLDER (secure_filename (filename f))) s))
      in (Inr (fst r), snd r))"
  by (simp add: analyze_def case_prod_beta Let_def)

lemma save_fields [simp]:
  "detector (save f p s) = detector s"
  "engine_calls (save f p s) = engine_calls s"
  "console (save f p s) = console s"
  by (simp_all add: save_def)




lemma pdf_analysis_raised:
  assumes "engine_calls (snd (pdf_analysis ty fn up s)) = engine_calls s @ [(op, p, out, Raised e)]"
  shows "fst (pdf_analysis ty fn up s) = Inl e"
  using assms unfolding pdf_analysis_def
  by (simp add: call_engine_def outcome_of_def case_prod_beta split: sum.splits if_splits)

lemma image_analysis_raised:
  assumes "engine_calls (snd (image_analysis fn up s)) = engine_calls s @ [(op, p, out, Raised e)]"
  shows "fst (image_analysis fn up s) = Inl e"
  using assms unfolding image_analysis_def
  by (simp add: call_engine_def outcome_of_def case_prod_beta split: sum.splits if_splits)

lemma document_analysis_raised:
  assumes "engine_calls (snd (document_analysis fn up s)) = engine_calls s @ [(op, p, out, Raised e)]"
  shows "fst (document_analysis fn up s) = Inl e"
  using assms unfolding document_analysis_def
  by (simp add: call_engine_def outcome_of_def case_prod_beta split: sum.splits if_splits)

lemma try_body_raised:
  assumes "engine_calls (snd (try_body ext ty fn up s)) = engine_calls s @ [(op, p, out, Raised e)]"
  shows "fst (try_body ext ty fn up s) = Inl e"
proof -
  consider (pdf) "ext = ''pdf''"
    | (image) "ext \<noteq> ''pdf''" "ty = ''image''"
    | (document) "ext \<noteq> ''pdf''" "ty \<noteq> ''image''" "ty = ''document''"
    | (other) "ext \<noteq> ''pdf''" "ty \<noteq> ''image''" "ty \<noteq> ''document''"
    by blast
  then show ?thesis
  proof cases
    case pdf
    with assms show ?thesis by (simp add: try_body_def pdf_analysis_raised)
  next
    case image
    with assms show ?thesis by (simp add: try_body_def image_analysis_raised)
  next
    case document
    with assms show ?thesis by (simp add: try_body_def document_analysis_raised)
  next
    case other
    with assms show ?thesis by (simp add: try_body_def)
  qed
qed

lemma except_Exception_Inl:
  "fst r = Inl e \<Longrightarrow> fst (except_Exception r) = internal_error"
  by (cases r) (auto simp: except_Exception_def)

lemma analyze_paths:
  obtains (no_file) "files_file req = None"
    | (no_name) f where "files_file req = Some f" "filename f = []"
    | (no_type) f where "files_file req = Some f" "filename f \<noteq> []"
        "form_analysis_type req = None \<or> form_analysis_type req = Some []"
    | (bad_type) f ty where "files_file req = Some f" "filename f \<noteq> []"
        "form_analysis_type req = Some ty" "ty \<noteq> []" "\<not> allowed_file (filename f)"
    | (no_extension) f ty x where "files_file req = Some f" "filename f \<noteq> []"
        "form_analysis_type req = Some ty" "ty \<noteq> []" "allowed_file (filename f)"
        "item1 (rsplit1 CHR ''.'' (secure_filename (filename f))) = Inl x"
    | (dispatch) f ty ext where "files_file req = Some f" "filename f \<noteq> []"
        "form_analysis_type req = Some ty" "ty \<noteq> []" "allowed_file (filename f)"
        "item1 (rsplit1 CHR ''.'' (secure_filename (filename f))) = Inr ext"
proof (cases "files_file req")
  case None
  then show ?thesis by (rule no_file)
next
  case (Some f)
  show ?thesis
  proof (cases "filename f = []")
    case True
    with Some show ?thesis by (rule no_name)
  next
    case nonempty: False
    show ?thesis
    proof (cases "form_analysis_type req")
      case None
      with Some nonempty show ?thesis by (intro no_type) auto
    next
      case ty: (Some ty)
      show ?thesis
      proof (cases "ty = []")
        case True
        with Some nonempty ty show ?thesis by (intro no_type) auto
      next
        case False
        show ?thesis
        proof (cases "allowed_file (filename f)")
          case allowed: True
          show ?thesis
          proof (cases "item1 (rsplit1 CHR ''.'' (secure_filename (filename f)))")
            case (Inl x)
            with Some nonempty ty False allowed show ?thesis by (intro no_extension)
          next
            case (Inr ext)
            with Some nonempty ty False allowed show ?thesis by (intro dispatch)
          qed
        next
          case False
          with Some nonempty ty \<open>ty \<noteq> []\<close> show ?thesis by (intro bad_type)
        qed
      qed
    qed
  qed
qed

text \<open>
  C7. Whenever a request leads to a call of a detector method and that call raises, the
  handler answers with the one generic internal-error response, status 500, whatever
  the exception is.
\<close>

theorem engine_failure_generic_response:
  assumes "engine_calls (snd (analyze s req)) = engine_calls s @ [(op, path, out, Raised e)]"
  shows "fst (analyze s req) = Inr internal_error"
proof (cases req rule: analyze_paths)
  case no_file with assms show ?thesis by (simp add: analyze_no_file)
next
  case no_name with assms show ?thesis by (simp add: analyze_no_name)
next
  case no_type with assms show ?thesis by (simp add: analyze_no_type)
next
  case bad_type with assms show ?thesis by (simp add: analyze_bad_type)
next
  case no_extension with assms show ?thesis by (simp add: analyze_no_extension)
next
  case (dispatch f ty ext)
  let ?up = "path_join UPLOAD_FOLDER (secure_filename (filename f))"
  let ?tb = "try_body (lower ext) ty (secure_filename (filename f)) ?up (save f ?up s)"
  have an: "analyze s req = (Inr (fst (except_Exception ?tb)), snd (except_Exception ?tb))"
    using analyze_dispatch [OF dispatch] by (simp add: Let_def)
  from assms an
  have "engine_calls (snd ?tb) = engine_calls (save f ?up s) @ [(op, path, out, Raised e)]"
    by simp
  then have "fst ?tb = Inl e" by (rule try_body_raised)
  then have "fst (except_Exception ?tb) = internal_error" by (rule except_Exception_Inl)
  with an show ?thesis by simp
qed

text \<open>
  A request for \<open>scan.png\<close> as a document, with a detector whose document analysis
  raises.
\<close>

theorem engine_failure_generic_response_witness:
  "engine_calls (snd (analyze (startup example_detector Map.empty) (upload ''scan.png'' ''document'')))
     = engine_calls (startup example_detector Map.empty)
       @ [(AnalyzeDocumentForgery, ''static/uploads/scan.png'', ''static/processed'',
           Raised (PyException ''OSError'' ''cannot identify image file''))]
   \<and> fst (analyze (startup example_detector Map.empty) (upload ''scan.png'' ''document''))
     = Inr internal_error"
proof -
  have h: "engine_calls (snd (analyze (startup example_detector Map.empty) (upload ''scan.png'' ''document'')))
     = engine_calls (startup example_detector Map.empty)
       @ [(AnalyzeDocumentForgery, ''static/uploads/scan.png'', ''static/processed'',
           Raised (PyException ''OSError'' ''cannot identify image file''))]"
    by code_simp
  from h engine_failure_generic_response [OF h] show ?thesis by simp
qed

text \<open>
  C6. A request whose file name fails the allow-list, or whose analysis type is missing,
  is answered with status 400 and one of the four specific messages, and the state is
  left as it was: no file is saved and no detector method is called.
\<close>

theorem validation_rejects_before_engine:
  assumes "(\<exists>f. files_file req = Some f \<and> \<not> allowed_file (filename f))
           \<or> form_analysis_type req = None \<or> form_analysis_type req = Some []"
  shows "\<exists>msg. analyze s req = (Inr (error_json msg, 400), s)
           \<and> msg \<in> {''No file part in the request.'', ''No file selected.'',
                     ''No analysis type selected.'', ''Invalid file type.''}"
proof (cases req rule: analyze_paths)
  case no_file
  then show ?thesis
    by (intro exI [of _ "''No file part in the request.''"]) (simp add: analyze_no_file)
next
  case no_name
  then show ?thesis
    by (intro exI [of _ "''No file selected.''"]) (simp add: analyze_no_name)
next
  case no_type
  then show ?thesis
    by (intro exI [of _ "''No analysis type selected.''"]) (simp add: analyze_no_type)
next
  case bad_type
  then show ?thesis
    by (intro exI [of _ "''Invalid file type.''"]) (simp add: analyze_bad_type)
next
  case no_extension with assms show ?thesis by simp
next
  case dispatch with assms show ?thesis by simp
qed

text \<open>A request for \<open>notes.txt\<close>: the extension is not on the allow-list.\<close>

theorem validation_rejects_before_engine_witness:
  "\<not> allowed_file ''notes.txt'' \<and>
   analyze (startup example_detector Map.empty) (upload ''notes.txt'' ''image'')
     = (Inr (error_json ''Invalid file type.'', 400), startup example_detector Map.empty)"
proof -
  have h: "\<not> allowed_file ''notes.txt''" by code_simp
  then have "(\<exists>f. files_file (upload ''notes.txt'' ''image'') = Some f \<and> \<not> allowed_file (filename f))
           \<or> form_analysis_type (upload ''notes.txt'' ''image'') = None
           \<or> form_analysis_type (upload ''notes.txt'' ''image'') = Some []"
    by (simp add: upload_def)
  from validation_rejects_before_engine [OF this, of "startup example_detector Map.empty"] h
  show ?thesis
    by (auto simp: upload_def error_json_def analyze_def)
qed

subsection \<open>Dispatch on the extension of the secured name\<close>

text \<open>
  Where the secured file name still has an extension and that extension is \<open>pdf\<close>, the
  handler looks at the extension first: the analysis type \<open>image\<close> is refused before any
  detector method is called, and every other analysis type runs the PDF analysis.
\<close>

lemma pdf_image_rejected:
  assumes "files_file req = Some f" "filename f \<noteq> []" "form_analysis_type req = Some ''image''"
    "allowed_file (filename f)"
    "item1 (rsplit1 CHR ''.'' (secure_filename (filename f))) = Inr ext" "lower ext = ''pdf''"
  shows "analyze s req =
           (Inr (error_json ''DeepFake analysis is for images (JPG, PNG), not PDFs.'', 400),
            save f (path_join UPLOAD_FOLDER (secure_filename (filename f))) s)"
  using analyze_dispatch [OF assms(1,2,3) _ assms(4,5), of s] assms(6)
  by (simp add: Let_def try_body_def pdf_analysis_def except_Exception_def)

lemma pdf_dispatch_before_type:
  assumes "files_file req = Some f" "filename f \<noteq> []" "form_analysis_type req = Some ty"
    "ty \<noteq> []" "ty \<noteq> ''image''" "allowed_file (filename f)"
    "item1 (rsplit1 CHR ''.'' (secure_filename (filename f))) = Inr ext" "lower ext = ''pdf''"
  shows "\<exists>r. engine_calls (snd (analyze s req)) =
           engine_calls s @ [(AnalyzePdfForgery, path_join UPLOAD_FOLDER (secure_filename (filename f)),
                              PROCESSED_FOLDER, r)]"
    and "fst (analyze s req) \<noteq> Inr (error_json ''Invalid analysis type specified.'', 400)"
  using analyze_dispatch [OF assms(1,2,3,4,6,7), of s] assms(5,8)
  by (simp_all add: Let_def try_body_def pdf_analysis_def except_Exception_def case_prod_beta
        internal_error_def error_json_def split: sum.splits)

text \<open>The loop of lines 63 to 67 adds keys and leaves the page numbers as they are.\<close>

lemma add_url_keeps:
  assumes "add_url path_key url_key result = Inr result'" "k \<noteq> url_key"
  shows "map_of result' k = map_of result k"
  using assms
  by (auto simp: add_url_def update_conv' split: option.splits if_splits pyval.splits)

lemma add_urls_page_number:
  assumes "add_urls result = Inr result'"
  shows "map_of result' ''page_number'' = map_of result ''page_number''"
proof -
  from assms obtain r1 where
    1: "add_url ''original_page_image_path'' ''original_image_url'' result = Inr r1"
    and 2: "add_url ''analyzed_image_path'' ''analyzed_image_url'' r1 = Inr result'"
    by (auto simp: add_urls_def split: sum.splits)
  have "map_of r1 ''page_number'' = map_of result ''page_number''"
    using 1 by (rule add_url_keeps) simp
  moreover have "map_of result' ''page_number'' = map_of r1 ''page_number''"
    using 2 by (rule add_url_keeps) simp
  ultimately show ?thesis by simp
qed

lemma add_urls_all_page_numbers:
  "add_urls_all results = Inr results' \<Longrightarrow>
   map (\<lambda>r. map_of r ''page_number'') results' = map (\<lambda>r. map_of r ''page_number'') results"
proof (induction results arbitrary: results')
  case Nil
  then show ?case by simp
next
  case (Cons r rs)
  then show ?case
    by (auto simp: add_urls_page_number split: sum.splits)
qed

text \<open>
  \<open>secure_filename\<close> strips leading dots and underscores, and drops what is not ASCII.
  A name that passes \<open>allowed_file\<close> can lose its dot there: \<open>_.pdf\<close> becomes
  \<open>pdf\<close>. Line 52 indexes the split of the secured name without the test that
  \<open>allowed_file\<close> makes on the name as uploaded, and it stands before the \<open>try\<close>.
\<close>

lemma unsecurable_name:
  "allowed_file ''_.pdf''" "secure_filename ''_.pdf'' = ''pdf''"
  "item1 (rsplit1 CHR ''.'' ''pdf'') = Inl IndexError"
  "path_join UPLOAD_FOLDER ''pdf'' = ''static/uploads/pdf''"
  by code_simp+

text \<open>
  C5. A request for the file \<open>_.pdf\<close> with analysis type \<open>image\<close> is not answered with
  the message that DeepFake analysis is not for PDFs: the upload is saved as
  \<open>static/uploads/pdf\<close> and IndexError leaves the handler.
\<close>

theorem pdf_image_unsecurable_name_raises:
  "analyze s (upload ''_.pdf'' ''image'')
     = (Inl IndexError, save \<lparr>filename = ''_.pdf'', stream = ''data''\<rparr> ''static/uploads/pdf'' s)"
  using analyze_no_extension [of "upload ''_.pdf'' ''image''" "\<lparr>filename = ''_.pdf'', stream = ''data''\<rparr>" "''image''" IndexError s]
  by (simp add: upload_def unsecurable_name)

text \<open>
  C9. A request for the file \<open>_.pdf\<close> with analysis type \<open>foo\<close> does not reach the
  PDF analysis: IndexError leaves the handler and no detector method has been called.
\<close>

theorem pdf_other_unsecurable_name_raises:
  "analyze s (upload ''_.pdf'' ''foo'')
     = (Inl IndexError, save \<lparr>filename = ''_.pdf'', stream = ''data''\<rparr> ''static/uploads/pdf'' s)
   \<and> engine_calls (snd (analyze s (upload ''_.pdf'' ''foo''))) = engine_calls s"
  using analyze_no_extension [of "upload ''_.pdf'' ''foo''" "\<lparr>filename = ''_.pdf'', stream = ''data''\<rparr>" "''foo''" IndexError s]
  by (simp add: upload_def unsecurable_name)

section \<open>Properties of the image branch\<close>

subsection \<open>The error of one rounding\<close>

lemma round_half_even_error: "\<bar>of_int (round_half_even x) - x\<bar> \<le> 1 / 2"
proof -
  define f where "f = (of_int \<lfloor>x\<rfloor> :: rat)"
  have b: "f \<le> x" "x < f + 1"
    unfolding f_def by linarith+
  have "round_half_even x = (if x - f < 1 / 2 then \<lfloor>x\<rfloor> else if 1 / 2 < x - f then \<lfloor>x\<rfloor> + 1
         else if even \<lfloor>x\<rfloor> then \<lfloor>x\<rfloor> else \<lfloor>x\<rfloor> + 1)"
    by (simp add: round_half_even_def Let_def f_def)
  then consider "of_int (round_half_even x) = f" "x - f \<le> 1 / 2"
    | "of_int (round_half_even x) = f + 1" "1 / 2 \<le> x - f"
    by (auto simp: f_def split: if_splits)
  then show ?thesis
    using b by cases (simp_all add: abs_if)
qed

lemma pow2_pos: "0 < pow2 e"
  by (simp add: pow2_def)

lemma pow2_mono:
  assumes "e \<le> e'"
  shows "pow2 e \<le> pow2 e'"
proof -
  have p: "pow2 e = 2 powi e" for e
    by (simp add: pow2_def power_int_def field_simps)
  show ?thesis unfolding p using assms by (intro power_int_increasing) auto
qed

lemma round_binary64_error:
  "\<bar>round_binary64 x - x\<bar> \<le> pow2 (max (ilog2 x - 52) (- 1074)) / 2"
proof (cases "x = 0")
  case True
  then show ?thesis using pow2_pos [of "max (ilog2 x - 52) (- 1074)"]
    by (simp add: round_binary64_def)
next
  case False
  define P where "P = pow2 (max (ilog2 x - 52) (- 1074))"
  have P: "0 < P" by (simp add: P_def pow2_pos)
  have "round_binary64 x - x = (of_int (round_half_even (x / P)) - x / P) * P"
    using False P by (simp add: round_binary64_def Let_def P_def [symmetric] algebra_simps)
  then have "\<bar>round_binary64 x - x\<bar> = \<bar>of_int (round_half_even (x / P)) - x / P\<bar> * P"
    using P by (simp add: abs_mult)
  also have "\<dots> \<le> (1 / 2) * P"
    using round_half_even_error [of "x / P"] P by (intro mult_right_mono) auto
  finally show ?thesis by (simp add: P_def)
qed

lemma bitlen_le:
  assumes "n < 2 ^ k"
  shows "bitlen n \<le> int k"
proof (cases "0 < n")
  case True
  from bitlen_bounds [OF True] have "(2::int) ^ nat (bitlen n - 1) < 2 ^ k"
    using assms by linarith
  then have "nat (bitlen n - 1) < k" by simp
  then show ?thesis by linarith
next
  case False
  then have "bitlen n = 0" by (simp add: bitlen_eq_zero_iff)
  then show ?thesis by simp
qed

lemma ilog2_le:
  assumes "\<bar>x\<bar> < 2 ^ Suc k"
  shows "ilog2 x \<le> int k"
proof (cases "1 \<le> \<bar>x\<bar>")
  case True
  have "of_int \<lfloor>\<bar>x\<bar>\<rfloor> \<le> \<bar>x\<bar>" by linarith
  with assms have "(of_int \<lfloor>\<bar>x\<bar>\<rfloor> :: rat) < 2 ^ Suc k" by linarith
  then have "(of_int \<lfloor>\<bar>x\<bar>\<rfloor> :: rat) < of_int (2 ^ Suc k)" by simp
  then have "\<lfloor>\<bar>x\<bar>\<rfloor> < 2 ^ Suc k" by (simp only: of_int_less_iff)
  then have "bitlen \<lfloor>\<bar>x\<bar>\<rfloor> \<le> int (Suc k)" by (rule bitlen_le)
  with True show ?thesis by (simp add: ilog2_def)
next
  case False
  then show ?thesis using bitlen_nonneg [of "\<lceil>1 / \<bar>x\<bar>\<rceil> - 1"]
    by (simp add: ilog2_def)
qed

lemma round_error_upto_128:
  assumes "\<bar>x\<bar> < 128"
  shows "\<bar>round_binary64 x - x\<bar> \<le> 1 / 2 ^ 47"
proof -
  have "\<bar>x\<bar> < 2 ^ Suc 6" using assms by simp
  then have "ilog2 x \<le> 6" using ilog2_le [of x 6] by simp
  then have "max (ilog2 x - 52) (- 1074) \<le> - 46" by simp
  then have "pow2 (max (ilog2 x - 52) (- 1074)) \<le> pow2 (- 46)" by (rule pow2_mono)
  also have "pow2 (- 46) = 1 / 2 ^ 46" by (simp add: pow2_def)
  finally show ?thesis using round_binary64_error [of x] by simp
qed

lemma round_error_upto_2:
  assumes "\<bar>x\<bar> < 2"
  shows "\<bar>round_binary64 x - x\<bar> \<le> 1 / 2 ^ 53"
proof -
  have "\<bar>x\<bar> < 2 ^ Suc 0" using assms by simp
  then have "ilog2 x \<le> 0" using ilog2_le [of x 0] by simp
  then have "max (ilog2 x - 52) (- 1074) \<le> - 52" by simp
  then have "pow2 (max (ilog2 x - 52) (- 1074)) \<le> pow2 (- 52)" by (rule pow2_mono)
  also have "pow2 (- 52) = 1 / 2 ^ 52" by (simp add: pow2_def)
  finally show ?thesis using round_binary64_error [of x] by simp
qed

lemma round_half_even_nonneg: "0 \<le> x \<Longrightarrow> 0 \<le> round_half_even x"
  by (simp add: round_half_even_def Let_def)

lemma round_half_even_le:
  assumes "x \<le> of_int n"
  shows "round_half_even x \<le> n"
proof (cases "x = of_int n")
  case True
  then show ?thesis by (simp add: round_half_even_def Let_def)
next
  case False
  with assms have "x < of_int n" by simp
  then have "\<lfloor>x\<rfloor> < n" by (simp add: floor_less_iff)
  then show ?thesis by (simp add: round_half_even_def Let_def)
qed

lemma round_binary64_nonneg:
  assumes "0 \<le> x"
  shows "0 \<le> round_binary64 x"
proof -
  have "0 \<le> x / pow2 e" for e using assms pow2_pos [of e] by simp
  then have "0 \<le> round_half_even (x / pow2 e)" for e by (rule round_half_even_nonneg)
  then show ?thesis using pow2_pos
    by (simp add: round_binary64_def Let_def less_imp_le)
qed

lemma round_binary64_le_100:
  assumes "0 \<le> x" "x \<le> 100"
  shows "round_binary64 x \<le> 100"
proof (cases "x = 0")
  case True
  then show ?thesis by (simp add: round_binary64_def)
next
  case False
  define e where "e = max (ilog2 x - 52) (- 1074)"
  have "\<bar>x\<bar> < 2 ^ Suc 6" using assms by simp
  then have "ilog2 x \<le> 6" using ilog2_le [of x 6] by simp
  then have e: "e \<le> - 46" by (simp add: e_def)
  then have p: "pow2 e = 1 / 2 ^ nat (- e)" by (simp add: pow2_def)
  have "x / pow2 e = x * 2 ^ nat (- e)" by (simp add: p)
  also have "\<dots> \<le> 100 * 2 ^ nat (- e)" using assms by simp
  also have "\<dots> = of_int (100 * 2 ^ nat (- e))" by simp
  finally have "round_half_even (x / pow2 e) \<le> 100 * 2 ^ nat (- e)"
    by (rule round_half_even_le)
  then have "(of_int (round_half_even (x / pow2 e)) :: rat) \<le> of_int (100 * 2 ^ nat (- e))"
    by (simp only: of_int_le_iff)
  then have "of_int (round_half_even (x / pow2 e)) * pow2 e \<le> of_int (100 * 2 ^ nat (- e)) * pow2 e"
    using pow2_pos [of e] by (simp only: mult_le_cancel_right_pos)
  also have "\<dots> = 100" by (simp add: p)
  finally show ?thesis using False by (simp add: round_binary64_def Let_def e_def)
qed

lemma probability_range: "0 \<le> Rep_probability p" "Rep_probability p \<le> 1"
  using Rep_probability [of p] by auto

subsection \<open>The two scores\<close>

text \<open>
  C10, as amended. The two scores are the roundings of \<open>(1 - p) * 100\<close> and
  \<open>p * 100\<close> in float arithmetic, so that their sum is 100 up to the rounding
  errors: it lies within \<open>2^-45\<close> of 100.
\<close>

theorem scores_sum_to_100_up_to_rounding:
  "\<bar>real_score p + fake_score p - 100\<bar> \<le> 1 / 2 ^ 45"
proof -
  define q where "q = Rep_probability p"
  define a where "a = round_binary64 (1 - q)"
  have q: "0 \<le> q" "q \<le> 1" by (simp_all add: q_def probability_range)
  have a: "\<bar>a - (1 - q)\<bar> \<le> 1 / 2 ^ 53"
    unfolding a_def using q by (intro round_error_upto_2) (simp add: abs_if)
  have "\<bar>a * 100\<bar> < 128" using a q by (simp add: abs_if split: if_splits)
  then have r: "\<bar>round_binary64 (a * 100) - a * 100\<bar> \<le> 1 / 2 ^ 47"
    by (rule round_error_upto_128)
  have "\<bar>q * 100\<bar> < 128" using q by (simp add: abs_if)
  then have f: "\<bar>round_binary64 (q * 100) - q * 100\<bar> \<le> 1 / 2 ^ 47"
    by (rule round_error_upto_128)
  have "real_score p = round_binary64 (a * 100)" "fake_score p = round_binary64 (q * 100)"
    by (simp_all add: real_score_def fake_score_def fsub_def fmul_def a_def q_def)
  then show ?thesis using a r f by (simp add: abs_if split: if_splits)
qed

lemma Rep_half: "Rep_probability half = 1 / 2"
  unfolding half_def by (rule Abs_probability_inverse) (simp, code_simp)

lemma Rep_float_0_021: "Rep_probability float_0_021 = 6052837899185947 / 2 ^ 58"
  unfolding float_0_021_def by (rule Abs_probability_inverse) (simp, code_simp)

text \<open>
  C10, as stated, fails at the probability \<open>0.021\<close>: the real score is
  \<open>97.89999999999999\<close>, the fake score \<open>2.1\<close> (the float next to it), and neither
  their exact sum nor their float sum \<open>99.99999999999999\<close> is 100.
\<close>

theorem scores_do_not_sum_to_100:
  "real_score float_0_021 = 6889100054993305 / 2 ^ 46
   \<and> fake_score float_0_021 = 4728779608739021 / 2 ^ 51
   \<and> real_score float_0_021 + fake_score float_0_021 \<noteq> 100
   \<and> round_binary64 (real_score float_0_021 + fake_score float_0_021) \<noteq> 100"
proof -
  have r: "fmul (fsub 1 (6052837899185947 / 2 ^ 58)) 100 = 6889100054993305 / 2 ^ 46"
    by code_simp
  have f: "fmul (6052837899185947 / 2 ^ 58) 100 = 4728779608739021 / 2 ^ 51"
    by code_simp
  have s: "round_binary64 (6889100054993305 / 2 ^ 46 + 4728779608739021 / 2 ^ 51) \<noteq> 100"
    by code_simp
  have e: "(6889100054993305 / 2 ^ 46 + 4728779608739021 / 2 ^ 51 :: rat) \<noteq> 100"
    by simp
  show ?thesis
    using r f s e by (simp only: real_score_def fake_score_def Rep_float_0_021) simp
qed

subsection \<open>The verdict\<close>

text \<open>An upload whose secured name has an extension other than \<open>pdf\<close>, with the
  analysis type \<open>image\<close>, reaches the image branch.\<close>

lemma analyze_image_upload:
  assumes "files_file req = Some f" "filename f \<noteq> []" "form_analysis_type req = Some ''image''"
    "allowed_file (filename f)"
    "item1 (rsplit1 CHR ''.'' (secure_filename (filename f))) = Inr ext" "lower ext \<noteq> ''pdf''"
  shows "analyze s req =
           (let r = except_Exception
                      (image_analysis (secure_filename (filename f))
                         (path_join UPLOAD_FOLDER (secure_filename (filename f)))
                         (save f (path_join UPLOAD_FOLDER (secure_filename (filename f))) s))
            in (Inr (fst r), snd r))"
  using analyze_dispatch [OF assms(1,2,3) _ assms(4,5), of s] assms(6)
  by (simp add: try_body_def)

text \<open>
  C1. When the image analysis of the detector returns a probability, that probability
  lies between 0 and 1 and the response carries the verdict \<open>DeepFake Detected\<close> if
  and only if it is greater than one half; at exactly one half the verdict is
  \<open>Likely Authentic\<close>.
\<close>

theorem image_verdict_threshold:
  assumes "predict_image_deepfake (detector s) upload_path PROCESSED_FOLDER (filesystem s)
             = (Inr (p, highlighted_path), dsk)"
  shows "\<exists>body s'. image_analysis fname upload_path s = (Inr (body, 200), s')
           \<and> 0 \<le> Rep_probability p \<and> Rep_probability p \<le> 1
           \<and> (map_of body ''verdict'' = Some (PyStr ''DeepFake Detected'')
                \<longleftrightarrow> 1 / 2 < Rep_probability p)
           \<and> (Rep_probability p = 1 / 2
                \<longrightarrow> map_of body ''verdict'' = Some (PyStr ''Likely Authentic''))"
  using assms probability_range [of p]
  by (simp add: image_analysis_def call_engine_def image_verdict_def)

text \<open>The probability one half, for the upload \<open>face.png\<close>.\<close>

theorem image_verdict_threshold_witness:
  "predict_image_deepfake (detector (startup example_detector Map.empty))
       ''static/uploads/face.png'' PROCESSED_FOLDER (filesystem (startup example_detector Map.empty))
     = (Inr (half, None), Map.empty)
   \<and> Rep_probability half = 1 / 2
   \<and> (\<exists>body s'. image_analysis ''face.png'' ''static/uploads/face.png''
                     (startup example_detector Map.empty) = (Inr (body, 200), s')
          \<and> map_of body ''verdict'' = Some (PyStr ''Likely Authentic''))"
proof -
  have h: "predict_image_deepfake (detector (startup example_detector Map.empty))
       ''static/uploads/face.png'' PROCESSED_FOLDER (filesystem (startup example_detector Map.empty))
     = (Inr (half, None), Map.empty)"
    by (simp add: startup_def example_detector_def)
  from image_verdict_threshold [OF h, of "''face.png''"] h Rep_half
  show ?thesis by auto
qed

section \<open>Properties of the engine modelled from the specification\<close>

subsection \<open>The ELA score and the forgery verdict\<close>

lemma sum_list_le_length:
  "(\<And>v. v \<in> set xs \<Longrightarrow> v \<le> c) \<Longrightarrow> sum_list xs \<le> c * length (xs :: nat list)"
  by (induction xs) (simp_all add: add_mono)

lemma error_map_le: "v \<in> set (error_map k a b) \<Longrightarrow> v \<le> 255"
  by (auto simp: error_map_def)

lemma ela_score_range:
  assumes "errors \<noteq> []" "\<And>v. v \<in> set errors \<Longrightarrow> v \<le> 255"
  shows "0 \<le> ela_score errors" "ela_score errors \<le> 100"
proof -
  define m :: rat where "m = of_nat (sum_list errors) * 100 / (255 * of_nat (length errors))"
  have n: "0 < (of_nat (length errors) :: rat)" using assms(1) by simp
  have "sum_list errors \<le> 255 * length errors" using assms(2) by (rule sum_list_le_length)
  then have "(of_nat (sum_list errors) :: rat) \<le> of_nat (255 * length errors)"
    by (simp only: of_nat_le_iff)
  then have "(of_nat (sum_list errors) :: rat) * 100 \<le> 100 * (255 * of_nat (length errors))"
    by simp
  then have "m \<le> 100" using n by (simp add: m_def pos_divide_le_eq)
  moreover have "0 \<le> m" by (simp add: m_def)
  ultimately show "0 \<le> ela_score errors" "ela_score errors \<le> 100"
    by (simp_all add: ela_score_def m_def [symmetric] round_binary64_nonneg round_binary64_le_100)
qed

text \<open>
  C2. For a document that is on the disk, decodes to an image with samples and whose
  artifact can be written, \<open>analyzeDocumentForgery\<close> returns a score between 0 and 100
  and the verdict \<open>Suspicious Forgery\<close> if and only if the score is greater than the
  threshold \<open>T\<close> of the configuration.
\<close>

theorem ela_score_and_verdict:
  assumes "dsk imagePath = Some bytes" "decode_image eng bytes = Some img"
    and "error_map (scale cfg) img (recompress eng (quality cfg) img) \<noteq> []"
    and "writable eng (artifact_path outDir imagePath ''_ela.png'')"
  shows "\<exists>score verdict analyzedPath dsk'.
           analyzeDocumentForgery cfg eng imagePath outDir dsk
             = (Inr (score, verdict, analyzedPath), dsk')
           \<and> 0 \<le> score \<and> score \<le> 100
           \<and> (verdict = ''Suspicious Forgery'' \<longleftrightarrow> score > threshold cfg)"
  using assms ela_score_range [OF assms(3) error_map_le]
  by (simp add: analyzeDocumentForgery_def Let_def ela_verdict_def)

text \<open>The image of three samples: the score is about 11.76, below the threshold 25.\<close>

theorem ela_score_and_verdict_witness:
  "scan_disk ''static/uploads/scan.png'' = Some ''hey''
   \<and> decode_image example_engine ''hey'' = Some [104, 101, 121]
   \<and> error_map (scale example_config) [104, 101, 121]
        (recompress example_engine (quality example_config) [104, 101, 121]) = [0, 75, 15]
   \<and> writable example_engine (artifact_path ''static/processed'' ''static/uploads/scan.png'' ''_ela.png'')
   \<and> (\<exists>score verdict analyzedPath dsk'.
         analyzeDocumentForgery example_config example_engine ''static/uploads/scan.png''
           ''static/processed'' scan_disk = (Inr (score, verdict, analyzedPath), dsk')
         \<and> 0 \<le> score \<and> score \<le> 100
         \<and> (verdict = ''Suspicious Forgery'' \<longleftrightarrow> score > threshold example_config))"
proof -
  have h1: "scan_disk ''static/uploads/scan.png'' = Some ''hey''"
    by (simp add: scan_disk_def)
  have h2: "decode_image example_engine ''hey'' = Some [104, 101, 121]"
    by (simp add: example_engine_def)
  have h3: "error_map (scale example_config) [104, 101, 121]
        (recompress example_engine (quality example_config) [104, 101, 121]) = [0, 75, 15]"
    by (simp add: example_engine_def example_config_def error_map_def)
  then have h3': "error_map (scale example_config) [104, 101, 121]
        (recompress example_engine (quality example_config) [104, 101, 121]) \<noteq> []"
    by simp
  have h4: "writable example_engine (artifact_path ''static/processed'' ''static/uploads/scan.png'' ''_ela.png'')"
    by (simp add: example_engine_def)
  from ela_score_and_verdict [where dsk = scan_disk and imagePath = "''static/uploads/scan.png''"
      and outDir = "''static/processed''", OF h1 h2 h3' h4] h1 h2 h3 h4
  show ?thesis by simp
qed

subsection \<open>The pages of a PDF\<close>

lemma page_number_result [simp]:
  "map_of (page_result i score verdict original analyzed) ''page_number'' = Some (PyInt (int i))"
  by (simp add: page_result_def)

lemma analyze_page_number:
  "map_of (fst (analyze_page cfg eng pdfPath outDir i page dsk)) ''page_number''
     = Some (PyInt (int i))"
  by (simp add: analyze_page_def failed_page_def Let_def case_prod_beta
           split: option.splits sum.splits)

lemma analyze_pages_numbers:
  "map (\<lambda>r. map_of r ''page_number'') (fst (analyze_pages cfg eng pdfPath outDir i pages dsk))
     = map (\<lambda>j. Some (PyInt (int j))) [i..<i + length pages]"
proof (induction pages arbitrary: i dsk)
  case Nil
  then show ?case by simp
next
  case (Cons page pages)
  have "[i..<i + length (page # pages)] = i # [Suc i..<Suc i + length pages]"
    by (simp add: upt_rec)
  then show ?case
    using Cons.IH [of "Suc i"] analyze_page_number [of cfg eng pdfPath outDir i page dsk]
    by (simp add: case_prod_beta)
qed

lemma analyze_pages_length:
  "length (fst (analyze_pages cfg eng pdfPath outDir i pages dsk)) = length pages"
  using arg_cong [OF analyze_pages_numbers [of cfg eng pdfPath outDir i pages dsk], of length]
  by simp

text \<open>
  C3. For a PDF that is on the disk and opens with \<open>N\<close> pages, not all of which fail,
  \<open>analyzePdfForgery\<close> returns \<open>N\<close> results whose page numbers are \<open>1, \<dots>, N\<close>
  in this order; with no page the result is the empty list.
\<close>

theorem pdf_results_in_page_order:
  assumes "dsk pdfPath = Some bytes" "pdf_pages eng bytes = Some pages"
    and "pages = [] \<or> \<not> list_all page_failed (fst (analyze_pages cfg eng pdfPath outDir 1 pages dsk))"
  shows "\<exists>results dsk'.
           analyzePdfForgery cfg eng pdfPath outDir dsk = (Inr results, dsk')
           \<and> length results = length pages
           \<and> map (\<lambda>r. map_of r ''page_number'') results
                = map (\<lambda>j. Some (PyInt (int j))) [1..<Suc (length pages)]
           \<and> (pages = [] \<longrightarrow> results = [])"
proof -
  let ?run = "analyze_pages cfg eng pdfPath outDir 1 pages dsk"
  have "(fst ?run = []) = (pages = [])"
    using analyze_pages_length [of cfg eng pdfPath outDir 1 pages dsk] by auto
  with assms(3) have "\<not> (fst ?run \<noteq> [] \<and> list_all page_failed (fst ?run))" by auto
  then have "analyzePdfForgery cfg eng pdfPath outDir dsk = (Inr (fst ?run), snd ?run)"
    using assms(1,2) by (simp add: analyzePdfForgery_def case_prod_beta)
  then show ?thesis
    using analyze_pages_length [of cfg eng pdfPath outDir 1 pages dsk]
      analyze_pages_numbers [of cfg eng pdfPath outDir 1 pages dsk]
    by simp
qed

text \<open>The PDF of two pages.\<close>

theorem pdf_results_in_page_order_witness:
  "pdf_disk ''static/uploads/doc.pdf'' = Some ''ab''
   \<and> pdf_pages example_engine ''ab'' = Some [''a'', ''b'']
   \<and> \<not> list_all page_failed
         (fst (analyze_pages example_config example_engine ''static/uploads/doc.pdf''
                 ''static/processed'' 1 [''a'', ''b''] pdf_disk))
   \<and> (\<exists>results dsk'.
         analyzePdfForgery example_config example_engine ''static/uploads/doc.pdf''
           ''static/processed'' pdf_disk = (Inr results, dsk')
         \<and> length results = 2
         \<and> map (\<lambda>r. map_of r ''page_number'') results = [Some (PyInt 1), Some (PyInt 2)])"
proof -
  have h1: "pdf_disk ''static/uploads/doc.pdf'' = Some ''ab''"
    by (simp add: pdf_disk_def)
  have h2: "pdf_pages example_engine ''ab'' = Some [''a'', ''b'']"
    by (simp add: example_engine_def)
  have h3: "\<not> list_all page_failed
         (fst (analyze_pages example_config example_engine ''static/uploads/doc.pdf''
                 ''static/processed'' 1 [''a'', ''b''] pdf_disk))"
    by code_simp
  then have h3': "[''a'', ''b''] = [] \<or> \<not> list_all page_failed
         (fst (analyze_pages example_config example_engine ''static/uploads/doc.pdf''
                 ''static/processed'' 1 [''a'', ''b''] pdf_disk))"
    by simp
  have u: "[1..<Suc (length [''a'', ''b''])] = [1, 2]" by (simp add: upt_rec)
  from pdf_results_in_page_order [where dsk = pdf_disk and pdfPath = "''static/uploads/doc.pdf''",
      OF h1 h2 h3'] h1 h2 h3
  show ?thesis
    by (simp only: u) auto
qed

subsection \<open>Artifact names\<close>

text \<open>
  The name of an artifact differs from the name of its input, so that an analysis
  never overwrites the file it reads.
\<close>

lemma basename_no_slash: "CHR ''/'' \<notin> set (basename p)"
  using set_takeWhileD [of "CHR ''/''" "\<lambda>c. c \<noteq> CHR ''/''" "rev p"]
  by (auto simp: basename_def)

lemma basename_append:
  assumes "CHR ''/'' \<notin> set b" "dir = [] \<or> last dir = CHR ''/''"
  shows "basename (dir @ b) = b"
proof -
  have "takeWhile (\<lambda>c. c \<noteq> CHR ''/'') (rev dir) = []"
    using assms(2) by (cases dir rule: rev_cases) auto
  moreover have "takeWhile (\<lambda>c. c \<noteq> CHR ''/'') (rev b @ rev dir)
                   = rev b @ takeWhile (\<lambda>c. c \<noteq> CHR ''/'') (rev dir)"
    using assms(1) by (intro takeWhile_append2) auto
  ultimately show ?thesis by (simp add: basename_def)
qed

lemma basename_artifact_path:
  assumes "role \<noteq> []" "CHR ''/'' \<notin> set role"
  shows "basename (artifact_path outDir p role) = basename p @ role"
proof -
  define b where "b = basename p @ role"
  have b: "CHR ''/'' \<notin> set b" "b \<noteq> []"
    using assms basename_no_slash [of p] by (auto simp: b_def)
  then have hd: "hd b \<noteq> CHR ''/''" by (metis hd_in_set)
  show ?thesis
  proof (cases "outDir = [] \<or> last outDir = CHR ''/''")
    case True
    then have "path_join outDir b = outDir @ b" using hd b(2) by (auto simp: path_join_def)
    moreover have "basename (outDir @ b) = b" using b(1) True by (rule basename_append)
    ultimately show ?thesis by (simp add: artifact_path_def b_def)
  next
    case False
    then have "path_join outDir b = (outDir @ ''/'') @ b"
      using hd b(2) by (auto simp: path_join_def)
    moreover have "basename ((outDir @ ''/'') @ b) = b"
      using b(1) by (rule basename_append) simp
    ultimately show ?thesis by (simp add: artifact_path_def b_def)
  qed
qed

lemma artifact_path_fresh:
  assumes "role \<noteq> []" "CHR ''/'' \<notin> set role"
  shows "artifact_path outDir p role \<noteq> p"
proof
  assume "artifact_path outDir p role = p"
  then have "basename (artifact_path outDir p role) = basename p" by simp
  with basename_artifact_path [OF assms] show False using assms(1) by simp
qed

lemma ela_keeps_input:
  "snd (analyzeDocumentForgery cfg eng imagePath outDir dsk) imagePath = dsk imagePath"
proof -
  have "artifact_path outDir imagePath ''_ela.png'' \<noteq> imagePath"
    by (rule artifact_path_fresh) simp_all
  then show ?thesis
    by (simp add: analyzeDocumentForgery_def Let_def split: option.splits)
qed

subsection \<open>The handler with this engine\<close>

text \<open>
  The upload \<open>scan.png\<close> with the four bytes \<open>data\<close>, analysed as a document: the
  errors are 60, 15, 60 and 15, the score is 14.71.
\<close>

lemma example_document_response:
  "fst (analyze (startup (spec_detector example_config example_engine) Map.empty)
          (upload ''scan.png'' ''document''))
     = Inr ([(''verdict'', PyStr ''Likely Authentic''),
             (''forgery_score'', PyStr ''14.71''),
             (''explanation'', PyStr (document_explanation ''Likely Authentic'')),
             (''analysis_type'', PyStr ''document''),
             (''original_image_url'', PyStr ''/static/uploads/scan.png''),
             (''analyzed_image_url'', PyStr ''/static/processed/scan.png_ela.png'')], 200)"
  by code_simp

end
